theory Spec2Isabelle
  imports Main
begin

section \<open>Errors and panics\<close>

text \<open>
  Errors of the underlying driver (cloud.google.com/go/datastore and its iterator package).
  The driver is an external collaborator; only the kinds of error that the normalizer
  tells apart are named, every other error is \<open>DOther\<close> with its message.
\<close>

datatype derror =
    DNoSuchEntity
  | DEntityExists
  | DMultiError "derror option list"
  | DDone
  | DOther string

text \<open>
  Errors of the wrapper package \<open>w\<close>. A slot of a \<open>MultiError\<close> is an \<open>error\<close> value of Go,
  \<open>None\<close> for nil. \<open>ErrorsNew msg\<close> is the value of \<open>errors.New(msg)\<close>.
\<close>

datatype werror =
    ErrNoSuchEntity
  | ErrEntityExists
  | MultiError "werror option list"
  | ErrDone
  | ErrorsNew string
  | Passthrough string

text \<open>A run-time panic of Go: the call does not return.\<close>

datatype panic = NilPointerDereference | IndexOutOfRange

text \<open>
  Modelled from the spec: \<open>toWrapperError\<close> is defined in a file of package clouddatastore
  that is not among the sources. Section 4.2: not-found maps to \<open>ErrNoSuchEntity\<close>, an
  already-exists conflict to \<open>ErrEntityExists\<close>, a batched partial failure to a
  \<open>MultiError\<close> of the same length with per-item mapped causes and nil slots kept nil,
  anything unrecognized passes through as an opaque error; section 4.6: the "no more
  results" signal becomes \<open>ErrDone\<close>.
\<close>

fun toWrapperError :: "derror \<Rightarrow> werror" where
  "toWrapperError DNoSuchEntity = ErrNoSuchEntity"
| "toWrapperError DEntityExists = ErrEntityExists"
| "toWrapperError (DMultiError es) = MultiError (map (map_option toWrapperError) es)"
| "toWrapperError DDone = ErrDone"
| "toWrapperError (DOther msg) = Passthrough msg"

section \<open>Data model\<close>

text \<open>
  \<open>context.Context\<close>, as far as package clouddatastore reads it: the value stored under
  the key \<open>contextTransaction{}\<close>. \<open>None\<close> is "no value" (\<open>ctx.Value\<close> returns the nil
  interface); \<open>Some None\<close> is a nil \<open>*datastore.Transaction\<close> stored under the key;
  \<open>Some (Some h)\<close> is the driver transaction at address \<open>h\<close>. The key type is private
  to the package, so no value of another type is stored under it.
\<close>

record go_context =
  ctx_Value :: "nat option option"

text \<open>
  \<open>datastoreImpl\<close>: the ambient context and the configured cache strategies (opaque
  here). Its driver client is part of the outside world, see \<open>world\<close> below.
\<close>

record 'c datastoreImpl =
  ds_ctx :: go_context
  ds_cacheStrategies :: "'c list"

record 'c transactionImpl =
  tx_client :: "'c datastoreImpl"

record commitImpl =
  ci_commit :: nat

record 'c originalClientBridgeImpl =
  ocb_d :: "'c datastoreImpl"

record 'c originalTransactionBridgeImpl =
  otb_tx :: "'c transactionImpl"

record 'q queryImpl =
  q_q :: 'q
  q_firstError :: "werror option"

record ('c, 'q) iteratorImpl =
  it_client :: "'c datastoreImpl"
  it_q :: "'q queryImpl"
  it_t :: nat
  it_firstError :: "werror option"

record 'c cacheInfo =
  info_Context :: go_context
  info_Client :: "'c datastoreImpl"

section \<open>The outside world: driver and translators\<close>

text \<open>Which driver entry point was called, and on which handle.\<close>

datatype drv_call =
    ClientGetMulti
  | ClientRun
  | TxPutMulti nat
  | TxGetMulti nat
  | TxDeleteMulti nat
  | TxCommit nat
  | TxRollback nat
  | IteratorNext nat

text \<open>
  The state outside the bridges: \<open>ext\<close> is everything the driver and the caller own (the
  remote store, open transactions, query cursors, the caller's entities), \<open>drv_log\<close>
  records each driver call in the order the bridges make them.
\<close>

record 's world =
  ext :: 's
  drv_log :: "drv_call list"

text \<open>
  The driver, a parameter of the model. Every entry point takes the state \<open>ext\<close> and
  returns its results with the new state. A Go result \<open>(v, err)\<close> is a pair whose second
  component is \<open>None\<close> for a nil error. \<open>GetMulti\<close> fills the slice \<open>dst\<close> in place: the
  second component of its result is the content of that slice after the call. The
  cursor's \<open>Next\<close> is given its property list by value and returns a key and an error:
  what it does to its copy does not reach the caller.
  Transactions, cursors and commits are named by their addresses.
\<close>

record ('ok, 'op, 'opk, 'q, 's) driver =
  client_GetMulti :: "go_context \<Rightarrow> 'ok list \<Rightarrow> 'op list \<Rightarrow> 's \<Rightarrow> (derror option \<times> 'op list) \<times> 's"
  client_Run :: "go_context \<Rightarrow> 'q \<Rightarrow> 's \<Rightarrow> nat \<times> 's"
  dtx_PutMulti :: "nat \<Rightarrow> 'ok list \<Rightarrow> 'op list \<Rightarrow> 's \<Rightarrow> ('opk list \<times> derror option) \<times> 's"
  dtx_GetMulti :: "nat \<Rightarrow> 'ok list \<Rightarrow> 'op list \<Rightarrow> 's \<Rightarrow> (derror option \<times> 'op list) \<times> 's"
  dtx_DeleteMulti :: "nat \<Rightarrow> 'ok list \<Rightarrow> 's \<Rightarrow> derror option \<times> 's"
  dtx_Commit :: "nat \<Rightarrow> 's \<Rightarrow> (nat \<times> derror option) \<times> 's"
  dtx_Rollback :: "nat \<Rightarrow> 's \<Rightarrow> derror option \<times> 's"
  dit_Next :: "nat \<Rightarrow> 'op \<Rightarrow> 's \<Rightarrow> ('ok \<times> derror option) \<times> 's"

text \<open>
  The element translators between the wrapper's and the driver's representations
  (section 4.1: pure, stateless). They are defined in files of package clouddatastore
  that are not among the sources, and are parameters here.
\<close>

record ('wk, 'ok, 'wp, 'op, 'wpk, 'opk) translator =
  toOriginalKey :: "'wk \<Rightarrow> 'ok"
  toWrapperKey :: "'ok \<Rightarrow> 'wk"
  toOriginalPropertyList :: "'wp \<Rightarrow> 'op"
  toWrapperPropertyList :: "'op \<Rightarrow> 'wp"
  toWrapperPendingKey :: "'opk \<Rightarrow> 'wpk"

text \<open>
  Modelled from the spec: the slice translators are not among the sources. Section 4.1
  gives them as the conversion of each element, position by position.
\<close>

definition toOriginalKeys :: "('wk, 'ok, 'wp, 'op, 'wpk, 'opk) translator \<Rightarrow> 'wk list \<Rightarrow> 'ok list" where
  "toOriginalKeys tr keys = map (toOriginalKey tr) keys"

definition toOriginalPropertyListList :: "('wk, 'ok, 'wp, 'op, 'wpk, 'opk) translator \<Rightarrow> 'wp list \<Rightarrow> 'op list" where
  "toOriginalPropertyListList tr psList = map (toOriginalPropertyList tr) psList"

definition toWrapperPropertyListList :: "('wk, 'ok, 'wp, 'op, 'wpk, 'opk) translator \<Rightarrow> 'op list \<Rightarrow> 'wp list" where
  "toWrapperPropertyListList tr origPss = map (toWrapperPropertyList tr) origPss"

definition toWrapperPendingKeys :: "('wk, 'ok, 'wp, 'op, 'wpk, 'opk) translator \<Rightarrow> 'opk list \<Rightarrow> 'wpk list" where
  "toWrapperPendingKeys tr origPKeys = map (toWrapperPendingKey tr) origPKeys"

text \<open>Recording a driver call: the new driver state and one more entry of the log.\<close>

definition called :: "drv_call \<Rightarrow> 's \<Rightarrow> 's world \<Rightarrow> 's world" where
  "called c s' w = w\<lparr>ext := s', drv_log := drv_log w @ [c]\<rparr>"

section \<open>transaction.go: getTx\<close>

definition getTx :: "go_context \<Rightarrow> nat option" where
  "getTx ctx = (case ctx_Value ctx of Some tx \<Rightarrow> tx | None \<Rightarrow> None)"

section \<open>The bridges\<close>

text \<open>
  The loop \<open>for idx, wPs := range wPss { psList[idx] = wPs }\<close>, started at index \<open>idx\<close>.
  An index beyond the caller's slice panics.
\<close>

fun write_back :: "nat \<Rightarrow> 'a list \<Rightarrow> 'a list \<Rightarrow> panic + 'a list" where
  "write_back idx [] psList = Inr psList"
| "write_back idx (wPs # wPss) psList =
     (if idx < length psList then write_back (Suc idx) wPss (psList[idx := wPs])
      else Inl IndexOutOfRange)"

text \<open>
  \<open>originalClientBridgeImpl.GetMulti\<close>. The result is the error returned, the caller's
  slice \<open>psList\<close> after the call, and the world after the call.
\<close>

definition ocb_GetMulti ::
  "('wk, 'ok, 'wp, 'op, 'wpk, 'opk) translator \<Rightarrow> ('ok, 'op, 'opk, 'q, 's) driver \<Rightarrow>
   'c originalClientBridgeImpl \<Rightarrow> go_context \<Rightarrow> 'wk list \<Rightarrow> 'wp list \<Rightarrow> 's world \<Rightarrow>
   panic + (werror option \<times> 'wp list \<times> 's world)" where
  "ocb_GetMulti tr drv ocb ctx keys psList w =
     (let origKeys = toOriginalKeys tr keys;
          origPss = toOriginalPropertyListList tr psList in
      case client_GetMulti drv ctx origKeys origPss (ext w) of
        ((err, origPss'), s') \<Rightarrow>
          (let w' = called ClientGetMulti s' w in
           case err of
             Some e \<Rightarrow> Inr (Some (toWrapperError e), psList, w')
           | None \<Rightarrow>
               (case write_back 0 (toWrapperPropertyListList tr origPss') psList of
                  Inl p \<Rightarrow> Inl p
                | Inr psList' \<Rightarrow> Inr (None, psList', w'))))"

text \<open>\<open>originalTransactionBridgeImpl.PutMulti\<close>: a nil slice of pending keys is \<open>None\<close>.\<close>

definition otb_PutMulti ::
  "('wk, 'ok, 'wp, 'op, 'wpk, 'opk) translator \<Rightarrow> ('ok, 'op, 'opk, 'q, 's) driver \<Rightarrow>
   'c originalTransactionBridgeImpl \<Rightarrow> 'wk list \<Rightarrow> 'wp list \<Rightarrow> 's world \<Rightarrow>
   ('wpk list option \<times> werror option) \<times> 's world" where
  "otb_PutMulti tr drv otb keys psList w =
     (case getTx (ds_ctx (tx_client (otb_tx otb))) of
        None \<Rightarrow> ((None, Some (ErrorsNew ''unexpected context'')), w)
      | Some baseTx \<Rightarrow>
          (let origKeys = toOriginalKeys tr keys;
               origPss = toOriginalPropertyListList tr psList in
           case dtx_PutMulti drv baseTx origKeys origPss (ext w) of
             ((origPKeys, err), s') \<Rightarrow>
               (let w' = called (TxPutMulti baseTx) s' w in
                case err of
                  Some e \<Rightarrow> ((None, Some (toWrapperError e)), w')
                | None \<Rightarrow> ((Some (toWrapperPendingKeys tr origPKeys), None), w'))))"

text \<open>\<open>originalTransactionBridgeImpl.GetMulti\<close>.\<close>

definition otb_GetMulti ::
  "('wk, 'ok, 'wp, 'op, 'wpk, 'opk) translator \<Rightarrow> ('ok, 'op, 'opk, 'q, 's) driver \<Rightarrow>
   'c originalTransactionBridgeImpl \<Rightarrow> 'wk list \<Rightarrow> 'wp list \<Rightarrow> 's world \<Rightarrow>
   panic + (werror option \<times> 'wp list \<times> 's world)" where
  "otb_GetMulti tr drv otb keys psList w =
     (case getTx (ds_ctx (tx_client (otb_tx otb))) of
        None \<Rightarrow> Inr (Some (ErrorsNew ''unexpected context''), psList, w)
      | Some baseTx \<Rightarrow>
          (let origKeys = toOriginalKeys tr keys;
               origPss = toOriginalPropertyListList tr psList in
           case dtx_GetMulti drv baseTx origKeys origPss (ext w) of
             ((err, origPss'), s') \<Rightarrow>
               (let w' = called (TxGetMulti baseTx) s' w in
                case err of
                  Some e \<Rightarrow> Inr (Some (toWrapperError e), psList, w')
                | None \<Rightarrow>
                    (case write_back 0 (toWrapperPropertyListList tr origPss') psList of
                       Inl p \<Rightarrow> Inl p
                     | Inr psList' \<Rightarrow> Inr (None, psList', w')))))"

text \<open>\<open>originalTransactionBridgeImpl.DeleteMulti\<close>.\<close>

definition otb_DeleteMulti ::
  "('wk, 'ok, 'wp, 'op, 'wpk, 'opk) translator \<Rightarrow> ('ok, 'op, 'opk, 'q, 's) driver \<Rightarrow>
   'c originalTransactionBridgeImpl \<Rightarrow> 'wk list \<Rightarrow> 's world \<Rightarrow> werror option \<times> 's world" where
  "otb_DeleteMulti tr drv otb keys w =
     (case getTx (ds_ctx (tx_client (otb_tx otb))) of
        None \<Rightarrow> (Some (ErrorsNew ''unexpected context''), w)
      | Some baseTx \<Rightarrow>
          (let origKeys = toOriginalKeys tr keys in
           case dtx_DeleteMulti drv baseTx origKeys (ext w) of
             (err, s') \<Rightarrow>
               (let w' = called (TxDeleteMulti baseTx) s' w in
                case err of
                  Some e \<Rightarrow> (Some (toWrapperError e), w')
                | None \<Rightarrow> (None, w'))))"

section \<open>Query iterators\<close>

text \<open>
  \<open>originalClientBridgeImpl.Run\<close>. The type assertion of \<open>q\<close> to a pointer to \<open>queryImpl\<close> holds
  by the type of \<open>qImpl\<close> here. The driver's \<open>Run\<close> hands back the address of a cursor.
\<close>

definition ocb_Run ::
  "('ok, 'op, 'opk, 'q, 's) driver \<Rightarrow> 'c originalClientBridgeImpl \<Rightarrow> go_context \<Rightarrow>
   'q queryImpl \<Rightarrow> 's world \<Rightarrow> ('c, 'q) iteratorImpl \<times> 's world" where
  "ocb_Run drv ocb ctx qImpl w =
     (case client_Run drv ctx (q_q qImpl) (ext w) of
        (iter, s') \<Rightarrow>
          (\<lparr>it_client = ocb_d ocb, it_q = qImpl, it_t = iter, it_firstError = q_firstError qImpl\<rparr>,
           called ClientRun s' w))"

text \<open>
  \<open>originalIteratorBridgeImpl.Next\<close>. The result is the pair returned (a nil key is
  \<open>None\<close>), the caller's buffer \<open>*ps\<close> after the call, and the world after the call.
  The local \<open>origPs\<close> is passed to the cursor by value, so on success the buffer
  receives the translation of \<open>origPs\<close> as it was before the call.
\<close>

definition oib_Next ::
  "('wk, 'ok, 'wp, 'op, 'wpk, 'opk) translator \<Rightarrow> ('ok, 'op, 'opk, 'q, 's) driver \<Rightarrow>
   ('c, 'q) iteratorImpl \<Rightarrow> 'wp \<Rightarrow> 's world \<Rightarrow> ('wk option \<times> werror option) \<times> 'wp \<times> 's world" where
  "oib_Next tr drv iterImpl ps w =
     (let origPs = toOriginalPropertyList tr ps in
      case dit_Next drv (it_t iterImpl) origPs (ext w) of
        ((origKey, err), s') \<Rightarrow>
          (let w' = called (IteratorNext (it_t iterImpl)) s' w in
           case err of
             Some e \<Rightarrow> ((None, Some (toWrapperError e)), ps, w')
           | None \<Rightarrow> ((Some (toWrapperKey tr origKey), None), toWrapperPropertyList tr origPs, w')))"

text \<open>
  A caller that calls \<open>Next\<close> once for each buffer of a list, in order, and collects what
  each call returned together with the buffer after that call.
\<close>

fun Next_each ::
  "('wk, 'ok, 'wp, 'op, 'wpk, 'opk) translator \<Rightarrow> ('ok, 'op, 'opk, 'q, 's) driver \<Rightarrow>
   ('c, 'q) iteratorImpl \<Rightarrow> 'wp list \<Rightarrow> 's world \<Rightarrow>
   (('wk option \<times> werror option) \<times> 'wp) list \<times> 's world" where
  "Next_each tr drv iterImpl [] w = ([], w)"
| "Next_each tr drv iterImpl (ps # pss) w =
     (case oib_Next tr drv iterImpl ps w of
        (r, ps', w') \<Rightarrow>
          (case Next_each tr drv iterImpl pss w' of
             (rs, w'') \<Rightarrow> ((r, ps') # rs, w'')))"

text \<open>
  The driver's contract for an exhausted cursor \<open>h\<close>: once \<open>Next\<close> has returned
  \<open>iterator.Done\<close>, every later \<open>Next\<close> on the state it left returns \<open>iterator.Done\<close>
  again and leaves that state as it is.
\<close>

definition done_is_terminal :: "('ok, 'op, 'opk, 'q, 's) driver \<Rightarrow> nat \<Rightarrow> bool" where
  "done_is_terminal drv h \<longleftrightarrow>
     (\<forall>ps s ps2. snd (fst (dit_Next drv h ps s)) = Some DDone \<longrightarrow>
        snd (fst (dit_Next drv h ps2 (snd (dit_Next drv h ps s)))) = Some DDone
        \<and> snd (dit_Next drv h ps2 (snd (dit_Next drv h ps s))) = snd (dit_Next drv h ps s))"

text \<open>
  Modelled from the spec: \<open>iteratorImpl.Next\<close>, the \<open>Next\<close> of the iterator that \<open>Run\<close>
  returns, is defined in a file of package clouddatastore that is not among the
  sources. Section 4.6: an iterator constructed against a query that already failed to
  parse or build carries that failure and returns it immediately on the first \<open>Next\<close>
  call without ever touching the driver cursor; otherwise \<open>Next\<close> advances one record
  through the Iterator Bridge.
\<close>

definition iteratorImpl_Next ::
  "('wk, 'ok, 'wp, 'op, 'wpk, 'opk) translator \<Rightarrow> ('ok, 'op, 'opk, 'q, 's) driver \<Rightarrow>
   ('c, 'q) iteratorImpl \<Rightarrow> 'wp \<Rightarrow> 's world \<Rightarrow> ('wk option \<times> werror option) \<times> 'wp \<times> 's world" where
  "iteratorImpl_Next tr drv iterImpl ps w =
     (case it_firstError iterImpl of
        Some e \<Rightarrow> ((None, Some e), ps, w)
      | None \<Rightarrow> oib_Next tr drv iterImpl ps w)"

section \<open>The Cache Bridge and the batch helpers of package shared\<close>

text \<open>
  Modelled from the spec: \<open>shared.NewCacheBridge\<close> is not among the sources. The Cache
  Bridge of section 2 stands between a facade and the two bridges; it is built from the
  five arguments that transaction.go passes: the cache info, the Original-Store Bridge,
  the Transaction Bridge, an iterator bridge (nil there) and the cache strategies.
\<close>

record 'c cacheBridge =
  cb_info :: "'c cacheInfo"
  cb_ocb :: "'c originalClientBridgeImpl"
  cb_otb :: "'c originalTransactionBridgeImpl"
  cb_oib :: "unit option"
  cb_cs :: "'c list"

definition NewCacheBridge ::
  "'c cacheInfo \<Rightarrow> 'c originalClientBridgeImpl \<Rightarrow> 'c originalTransactionBridgeImpl \<Rightarrow>
   unit option \<Rightarrow> 'c list \<Rightarrow> 'c cacheBridge" where
  "NewCacheBridge info ocb otb oib cs =
     \<lparr>cb_info = info, cb_ocb = ocb, cb_otb = otb, cb_oib = oib, cb_cs = cs\<rparr>"

text \<open>
  Modelled from the spec: \<open>CacheBridge.GetMultiWithTx\<close> is not among the sources.
  Section 4.5 (a): inside a transaction, bypass any cache layer that is not
  transaction-aware and read straight through the Transaction Bridge. The spec gives no
  reading rule for a transaction-aware layer, so no layer is consulted.
\<close>

definition GetMultiWithTx ::
  "('wk, 'ok, 'wp, 'op, 'wpk, 'opk) translator \<Rightarrow> ('ok, 'op, 'opk, 'q, 's) driver \<Rightarrow>
   'c cacheBridge \<Rightarrow> 'c cacheInfo \<Rightarrow> 'wk list \<Rightarrow> 'wp list \<Rightarrow> 's world \<Rightarrow>
   panic + (werror option \<times> 'wp list \<times> 's world)" where
  "GetMultiWithTx tr drv cb info keys psList w = otb_GetMulti tr drv (cb_otb cb) keys psList w"

text \<open>
  The callbacks that transaction.go hands to \<open>shared.GetMultiOps\<close>, \<open>shared.PutMultiOps\<close>
  and \<open>shared.DeleteMultiOps\<close>. The slots of a put are the concrete keys, the pending
  keys and the error; a nil slice is \<open>None\<close>.
\<close>

type_synonym ('wk, 'wp, 's) getOps =
  "'wk list \<Rightarrow> 'wp list \<Rightarrow> 's world \<Rightarrow> panic + (werror option \<times> 'wp list \<times> 's world)"

type_synonym ('wk, 'wp, 'wpk, 's) putOps =
  "'wk list \<Rightarrow> 'wp list \<Rightarrow> 's world \<Rightarrow>
   panic + (('wk list option \<times> 'wpk list option \<times> werror option) \<times> 's world)"

type_synonym ('wk, 's) deleteOps =
  "'wk list \<Rightarrow> 's world \<Rightarrow> panic + (werror option \<times> 's world)"

section \<open>transaction.go: transactionImpl\<close>

text \<open>
  \<open>shared.GetMultiOps\<close>, \<open>shared.PutMultiOps\<close>, \<open>shared.DeleteMultiOps\<close> and the
  \<open>WithTx\<close> methods of the Cache Bridge are not among the sources: the methods below take
  them as parameters, named as in the source. The destinations \<open>dst\<close> and the entities
  \<open>src\<close> are slices of values of the caller; what a read loads into \<open>dst\<close> is part of
  \<open>ext\<close>.
\<close>

definition transactionImpl_GetMulti ::
  "(go_context \<Rightarrow> 'wk list \<Rightarrow> 'd list \<Rightarrow> ('wk, 'wp, 's) getOps \<Rightarrow> 's world \<Rightarrow> panic + (werror option \<times> 's world)) \<Rightarrow>
   ('c cacheBridge \<Rightarrow> 'c cacheInfo \<Rightarrow> ('wk, 'wp, 's) getOps) \<Rightarrow>
   'c transactionImpl \<Rightarrow> 'wk list \<Rightarrow> 'd list \<Rightarrow> 's world \<Rightarrow> panic + (werror option \<times> 's world)" where
  "transactionImpl_GetMulti GetMultiOps cb_GetMultiWithTx tx keys dst w =
     (let cacheInfo = \<lparr>info_Context = ds_ctx (tx_client tx), info_Client = tx_client tx\<rparr>;
          cb = NewCacheBridge cacheInfo \<lparr>ocb_d = tx_client tx\<rparr> \<lparr>otb_tx = tx\<rparr> None
                 (ds_cacheStrategies (tx_client tx)) in
      GetMultiOps (ds_ctx (tx_client tx)) keys dst
        (\<lambda>keys dst. cb_GetMultiWithTx cb cacheInfo keys dst) w)"

text \<open>\<open>transactionImpl.Get\<close>: \<open>merr[0]\<close> on a \<open>MultiError\<close> without slots panics.\<close>

definition transactionImpl_Get ::
  "(go_context \<Rightarrow> 'wk list \<Rightarrow> 'd list \<Rightarrow> ('wk, 'wp, 's) getOps \<Rightarrow> 's world \<Rightarrow> panic + (werror option \<times> 's world)) \<Rightarrow>
   ('c cacheBridge \<Rightarrow> 'c cacheInfo \<Rightarrow> ('wk, 'wp, 's) getOps) \<Rightarrow>
   'c transactionImpl \<Rightarrow> 'wk \<Rightarrow> 'd \<Rightarrow> 's world \<Rightarrow> panic + (werror option \<times> 's world)" where
  "transactionImpl_Get GetMultiOps cb_GetMultiWithTx tx key dst w =
     (case transactionImpl_GetMulti GetMultiOps cb_GetMultiWithTx tx [key] [dst] w of
        Inl p \<Rightarrow> Inl p
      | Inr (err, w') \<Rightarrow>
          (case err of
             Some (MultiError merr) \<Rightarrow>
               (case merr of [] \<Rightarrow> Inl IndexOutOfRange | e # _ \<Rightarrow> Inr (e, w'))
           | Some e \<Rightarrow> Inr (Some e, w')
           | None \<Rightarrow> Inr (None, w')))"

text \<open>
  The callback of \<open>transactionImpl.PutMulti\<close>:
  \<open>pKeys, err := cb.PutMultiWithTx(cacheInfo, keys, src); return nil, pKeys, err\<close>.
\<close>

definition transactionImpl_PutMulti_ops ::
  "('c cacheBridge \<Rightarrow> 'c cacheInfo \<Rightarrow> 'wk list \<Rightarrow> 'wp list \<Rightarrow> 's world \<Rightarrow>
      panic + (('wpk list option \<times> werror option) \<times> 's world)) \<Rightarrow>
   'c cacheBridge \<Rightarrow> 'c cacheInfo \<Rightarrow> ('wk, 'wp, 'wpk, 's) putOps" where
  "transactionImpl_PutMulti_ops cb_PutMultiWithTx cb cacheInfo keys src w =
     (case cb_PutMultiWithTx cb cacheInfo keys src w of
        Inl p \<Rightarrow> Inl p
      | Inr ((pKeys, err), w') \<Rightarrow> Inr ((None, pKeys, err), w'))"

definition transactionImpl_PutMulti ::
  "(go_context \<Rightarrow> 'wk list \<Rightarrow> 'd list \<Rightarrow> ('wk, 'wp, 'wpk, 's) putOps \<Rightarrow> 's world \<Rightarrow>
      panic + (('wk list option \<times> 'wpk list option \<times> werror option) \<times> 's world)) \<Rightarrow>
   ('c cacheBridge \<Rightarrow> 'c cacheInfo \<Rightarrow> 'wk list \<Rightarrow> 'wp list \<Rightarrow> 's world \<Rightarrow>
      panic + (('wpk list option \<times> werror option) \<times> 's world)) \<Rightarrow>
   'c transactionImpl \<Rightarrow> 'wk list \<Rightarrow> 'd list \<Rightarrow> 's world \<Rightarrow>
   panic + (('wpk list option \<times> werror option) \<times> 's world)" where
  "transactionImpl_PutMulti PutMultiOps cb_PutMultiWithTx tx keys src w =
     (let cacheInfo = \<lparr>info_Context = ds_ctx (tx_client tx), info_Client = tx_client tx\<rparr>;
          cb = NewCacheBridge cacheInfo \<lparr>ocb_d = tx_client tx\<rparr> \<lparr>otb_tx = tx\<rparr> None
                 (ds_cacheStrategies (tx_client tx)) in
      case PutMultiOps (ds_ctx (tx_client tx)) keys src
             (transactionImpl_PutMulti_ops cb_PutMultiWithTx cb cacheInfo) w of
        Inl p \<Rightarrow> Inl p
      | Inr ((ks, pKeys, err), w') \<Rightarrow>
          (case err of
             Some e \<Rightarrow> Inr ((None, Some e), w')
           | None \<Rightarrow> Inr ((pKeys, None), w')))"

text \<open>
  \<open>transactionImpl.Put\<close>: \<open>merr[0]\<close> and \<open>pKeys[0]\<close> panic on a slice without elements.
\<close>

definition transactionImpl_Put ::
  "(go_context \<Rightarrow> 'wk list \<Rightarrow> 'd list \<Rightarrow> ('wk, 'wp, 'wpk, 's) putOps \<Rightarrow> 's world \<Rightarrow>
      panic + (('wk list option \<times> 'wpk list option \<times> werror option) \<times> 's world)) \<Rightarrow>
   ('c cacheBridge \<Rightarrow> 'c cacheInfo \<Rightarrow> 'wk list \<Rightarrow> 'wp list \<Rightarrow> 's world \<Rightarrow>
      panic + (('wpk list option \<times> werror option) \<times> 's world)) \<Rightarrow>
   'c transactionImpl \<Rightarrow> 'wk \<Rightarrow> 'd \<Rightarrow> 's world \<Rightarrow>
   panic + (('wpk option \<times> werror option) \<times> 's world)" where
  "transactionImpl_Put PutMultiOps cb_PutMultiWithTx tx key src w =
     (case transactionImpl_PutMulti PutMultiOps cb_PutMultiWithTx tx [key] [src] w of
        Inl p \<Rightarrow> Inl p
      | Inr ((pKeys, err), w') \<Rightarrow>
          (case err of
             Some (MultiError merr) \<Rightarrow>
               (case merr of [] \<Rightarrow> Inl IndexOutOfRange | e # _ \<Rightarrow> Inr ((None, e), w'))
           | Some e \<Rightarrow> Inr ((None, Some e), w')
           | None \<Rightarrow>
               (case pKeys of
                  None \<Rightarrow> Inl IndexOutOfRange
                | Some [] \<Rightarrow> Inl IndexOutOfRange
                | Some (pKey # _) \<Rightarrow> Inr ((Some pKey, None), w'))))"

definition transactionImpl_DeleteMulti ::
  "(go_context \<Rightarrow> 'wk list \<Rightarrow> ('wk, 's) deleteOps \<Rightarrow> 's world \<Rightarrow> panic + (werror option \<times> 's world)) \<Rightarrow>
   ('c cacheBridge \<Rightarrow> 'c cacheInfo \<Rightarrow> ('wk, 's) deleteOps) \<Rightarrow>
   'c transactionImpl \<Rightarrow> 'wk list \<Rightarrow> 's world \<Rightarrow> panic + (werror option \<times> 's world)" where
  "transactionImpl_DeleteMulti DeleteMultiOps cb_DeleteMultiWithTx tx keys w =
     (let cacheInfo = \<lparr>info_Context = ds_ctx (tx_client tx), info_Client = tx_client tx\<rparr>;
          cb = NewCacheBridge cacheInfo \<lparr>ocb_d = tx_client tx\<rparr> \<lparr>otb_tx = tx\<rparr> None
                 (ds_cacheStrategies (tx_client tx)) in
      DeleteMultiOps (ds_ctx (tx_client tx)) keys
        (\<lambda>keys. cb_DeleteMultiWithTx cb cacheInfo keys) w)"

definition transactionImpl_Delete ::
  "(go_context \<Rightarrow> 'wk list \<Rightarrow> ('wk, 's) deleteOps \<Rightarrow> 's world \<Rightarrow> panic + (werror option \<times> 's world)) \<Rightarrow>
   ('c cacheBridge \<Rightarrow> 'c cacheInfo \<Rightarrow> ('wk, 's) deleteOps) \<Rightarrow>
   'c transactionImpl \<Rightarrow> 'wk \<Rightarrow> 's world \<Rightarrow> panic + (werror option \<times> 's world)" where
  "transactionImpl_Delete DeleteMultiOps cb_DeleteMultiWithTx tx key w =
     (case transactionImpl_DeleteMulti DeleteMultiOps cb_DeleteMultiWithTx tx [key] w of
        Inl p \<Rightarrow> Inl p
      | Inr (err, w') \<Rightarrow>
          (case err of
             Some (MultiError merr) \<Rightarrow>
               (case merr of [] \<Rightarrow> Inl IndexOutOfRange | e # _ \<Rightarrow> Inr (e, w'))
           | Some e \<Rightarrow> Inr (Some e, w')
           | None \<Rightarrow> Inr (None, w')))"

text \<open>\<open>transactionImpl.Commit\<close>: a nil \<open>w.Commit\<close> is \<open>None\<close>.\<close>

definition transactionImpl_Commit ::
  "('ok, 'op, 'opk, 'q, 's) driver \<Rightarrow> 'c transactionImpl \<Rightarrow> 's world \<Rightarrow>
   (commitImpl option \<times> werror option) \<times> 's world" where
  "transactionImpl_Commit drv tx w =
     (case getTx (ds_ctx (tx_client tx)) of
        None \<Rightarrow> ((None, None), w)
      | Some baseTx \<Rightarrow>
          (case dtx_Commit drv baseTx (ext w) of
             ((commit, err), s') \<Rightarrow>
               (let w' = called (TxCommit baseTx) s' w in
                case err of
                  Some e \<Rightarrow> ((None, Some (toWrapperError e)), w')
                | None \<Rightarrow> ((Some \<lparr>ci_commit = commit\<rparr>, None), w'))))"

text \<open>
  \<open>transactionImpl.Rollback\<close>. The receiver is a pointer, \<open>None\<close> for nil: reading
  \<open>tx.client\<close> through a nil receiver panics before the guard is reached. The guard is
  written as in the source, on the receiver \<open>tx\<close>. \<open>baseTx.Rollback()\<close> on a nil
  \<open>*datastore.Transaction\<close> reads the fields of the transaction through the nil pointer
  and panics.
\<close>

definition transactionImpl_Rollback ::
  "('ok, 'op, 'opk, 'q, 's) driver \<Rightarrow> 'c transactionImpl option \<Rightarrow> 's world \<Rightarrow>
   panic + (werror option \<times> 's world)" where
  "transactionImpl_Rollback drv tx w =
     (case tx of
        None \<Rightarrow> Inl NilPointerDereference
      | Some t \<Rightarrow>
          (let baseTx = getTx (ds_ctx (tx_client t)) in
           if tx = None then Inr (None, w)
           else
             (case baseTx of
                None \<Rightarrow> Inl NilPointerDereference
              | Some h \<Rightarrow>
                  (case dtx_Rollback drv h (ext w) of
                     (err, s') \<Rightarrow>
                       (let w' = called (TxRollback h) s' w in
                        case err of
                          Some e \<Rightarrow> Inr (Some (toWrapperError e), w')
                        | None \<Rightarrow> Inr (None, w'))))))"

section \<open>Sample instances\<close>

text \<open>
  A small driver over natural numbers, to run the model on concrete inputs. Its state is
  the list of entities a cursor has still to deliver. Key 0 does not exist: a batch that
  names it fails with a multi error that has one slot for each key. Key 1 makes the
  whole call fail with an error the normalizer does not know.
\<close>

definition sample_result :: "nat list \<Rightarrow> derror option" where
  "sample_result keys =
     (if 1 \<in> set keys then Some (DOther ''deadline exceeded'')
      else if 0 \<in> set keys
        then Some (DMultiError (map (\<lambda>k. if k = 0 then Some DNoSuchEntity else None) keys))
      else None)"

definition sample_driver :: "(nat, nat, nat, unit, nat list) driver" where
  "sample_driver = \<lparr>
     client_GetMulti = (\<lambda>ctx keys dst s.
        ((sample_result keys,
          if sample_result keys = None
          then map (\<lambda>(k, d). k + 100) (zip keys dst) @ drop (length keys) dst else dst), s)),
     client_Run = (\<lambda>ctx q s. (7, s)),
     dtx_PutMulti = (\<lambda>h keys src s.
        ((if sample_result keys = None then map (\<lambda>k. k + 1000) keys else [], sample_result keys), s)),
     dtx_GetMulti = (\<lambda>h keys dst s.
        ((sample_result keys,
          if sample_result keys = None
          then map (\<lambda>(k, d). k + 100) (zip keys dst) @ drop (length keys) dst else dst), s)),
     dtx_DeleteMulti = (\<lambda>h keys s. (sample_result keys, s)),
     dtx_Commit = (\<lambda>h s. ((h + 1, None), s)),
     dtx_Rollback = (\<lambda>h s. (None, s)),
     dit_Next = (\<lambda>h ps s. case s of [] \<Rightarrow> ((0, Some DDone), [])
                                   | e # rest \<Rightarrow> ((e, None), rest))
   \<rparr>"

definition sample_translator :: "(nat, nat, nat, nat, nat, nat) translator" where
  "sample_translator = \<lparr>
     toOriginalKey = (\<lambda>k. k),
     toWrapperKey = (\<lambda>k. k),
     toOriginalPropertyList = (\<lambda>p. p),
     toWrapperPropertyList = (\<lambda>p. p + 1),
     toWrapperPendingKey = (\<lambda>p. p + 1)
   \<rparr>"

text \<open>A client whose context carries no transaction, and one inside transaction 5.\<close>

definition sample_client_notx :: "unit datastoreImpl" where
  "sample_client_notx = \<lparr>ds_ctx = \<lparr>ctx_Value = None\<rparr>, ds_cacheStrategies = []\<rparr>"

definition sample_client_tx :: "unit datastoreImpl" where
  "sample_client_tx = \<lparr>ds_ctx = \<lparr>ctx_Value = Some (Some 5)\<rparr>, ds_cacheStrategies = [()]\<rparr>"

definition sample_world :: "nat list world" where
  "sample_world = \<lparr>ext = [3], drv_log = []\<rparr>"

text \<open>
  Stand-ins for the helpers of package shared: each batch helper hands the keys and one
  empty property list for each key to its callback, and each \<open>WithTx\<close> method goes to the
  Transaction Bridge.
\<close>

definition sample_GetMultiOps ::
  "go_context \<Rightarrow> nat list \<Rightarrow> nat list \<Rightarrow> (nat, nat, nat list) getOps \<Rightarrow> nat list world \<Rightarrow>
   panic + (werror option \<times> nat list world)" where
  "sample_GetMultiOps ctx keys dst ops w =
     (case ops keys (map (\<lambda>k. 0) keys) w of
        Inl p \<Rightarrow> Inl p
      | Inr (err, psList, w') \<Rightarrow> Inr (err, w'))"

definition sample_PutMultiOps ::
  "go_context \<Rightarrow> nat list \<Rightarrow> nat list \<Rightarrow> (nat, nat, nat, nat list) putOps \<Rightarrow> nat list world \<Rightarrow>
   panic + ((nat list option \<times> nat list option \<times> werror option) \<times> nat list world)" where
  "sample_PutMultiOps ctx keys src ops w = ops keys src w"

definition sample_DeleteMultiOps ::
  "go_context \<Rightarrow> nat list \<Rightarrow> (nat, nat list) deleteOps \<Rightarrow> nat list world \<Rightarrow>
   panic + (werror option \<times> nat list world)" where
  "sample_DeleteMultiOps ctx keys ops w = ops keys w"

definition sample_GetMultiWithTx ::
  "unit cacheBridge \<Rightarrow> unit cacheInfo \<Rightarrow> (nat, nat, nat list) getOps" where
  "sample_GetMultiWithTx cb info keys psList w =
     otb_GetMulti sample_translator sample_driver (cb_otb cb) keys psList w"

definition sample_PutMultiWithTx ::
  "unit cacheBridge \<Rightarrow> unit cacheInfo \<Rightarrow> nat list \<Rightarrow> nat list \<Rightarrow> nat list world \<Rightarrow>
   panic + ((nat list option \<times> werror option) \<times> nat list world)" where
  "sample_PutMultiWithTx cb info keys src w =
     Inr (otb_PutMulti sample_translator sample_driver (cb_otb cb) keys src w)"

definition sample_DeleteMultiWithTx ::
  "unit cacheBridge \<Rightarrow> unit cacheInfo \<Rightarrow> (nat, nat list) deleteOps" where
  "sample_DeleteMultiWithTx cb info keys w =
     Inr (otb_DeleteMulti sample_translator sample_driver (cb_otb cb) keys w)"

text \<open>A query that failed to build, and the iterator that \<open>Run\<close> makes of it.\<close>

definition sample_failed_query :: "unit queryImpl" where
  "sample_failed_query = \<lparr>q_q = (), q_firstError = Some (ErrorsNew ''bad filter'')\<rparr>"

definition sample_failed_iterator :: "(unit, unit) iteratorImpl" where
  "sample_failed_iterator =
     fst (ocb_Run sample_driver \<lparr>ocb_d = sample_client_notx\<rparr> (ds_ctx sample_client_notx)
            sample_failed_query sample_world)"

definition sample_world_after_Run :: "nat list world" where
  "sample_world_after_Run =
     snd (ocb_Run sample_driver \<lparr>ocb_d = sample_client_notx\<rparr> (ds_ctx sample_client_notx)
            sample_failed_query sample_world)"

section \<open>Facts about the helpers\<close>

lemma toWrapperError_ErrDone: "toWrapperError e = ErrDone \<longleftrightarrow> e = DDone"
  by (cases e) simp_all

lemma write_back_fits:
  "idx + length wPss \<le> length psList \<Longrightarrow>
   write_back idx wPss psList = Inr (take idx psList @ wPss @ drop (idx + length wPss) psList)"
proof (induction wPss arbitrary: idx psList)
  case Nil
  then show ?case by simp
next
  case (Cons a wPss)
  then show ?case
    by (simp add: upd_conv_take_nth_drop take_Suc_conv_app_nth add.commute)
qed

lemma write_back_same_length:
  "length wPss = length psList \<Longrightarrow> write_back 0 wPss psList = Inr wPss"
  using write_back_fits [of 0 wPss psList] by simp

lemmas sample_defs =
  sample_driver_def sample_translator_def sample_client_tx_def sample_client_notx_def
  sample_world_def sample_result_def called_def getTx_def
  toOriginalKeys_def toOriginalPropertyListList_def toWrapperPropertyListList_def
  toWrapperPendingKeys_def NewCacheBridge_def

section \<open>Transaction Bridge outside a transaction\<close>

text \<open>
  C1. Every operation of the Transaction Bridge (PutMulti, GetMulti, DeleteMulti) called
  while the ambient context carries no transaction handle returns the error
  \<open>errors.New("unexpected context")\<close> at once: no panic, no result, the caller's slice as
  it was, and the world unchanged, so neither the driver state nor the log of driver
  calls has moved.
\<close>

theorem otb_no_transaction_unexpected_context:
  assumes "getTx (ds_ctx (tx_client (otb_tx otb))) = None"
  shows "otb_PutMulti tr drv otb keys psList w = ((None, Some (ErrorsNew ''unexpected context'')), w)
       \<and> otb_GetMulti tr drv otb keys psList w = Inr (Some (ErrorsNew ''unexpected context''), psList, w)
       \<and> otb_DeleteMulti tr drv otb keys w = (Some (ErrorsNew ''unexpected context''), w)"
  using assms by (simp add: otb_PutMulti_def otb_GetMulti_def otb_DeleteMulti_def)

theorem otb_no_transaction_unexpected_context_witness:
  "getTx (ds_ctx (tx_client (otb_tx \<lparr>otb_tx = \<lparr>tx_client = sample_client_notx\<rparr>\<rparr>))) = None
   \<and> otb_PutMulti sample_translator sample_driver \<lparr>otb_tx = \<lparr>tx_client = sample_client_notx\<rparr>\<rparr>
        [1, 2] [0, 0] sample_world
      = ((None, Some (ErrorsNew ''unexpected context'')), \<lparr>ext = [3], drv_log = []\<rparr>)
   \<and> otb_GetMulti sample_translator sample_driver \<lparr>otb_tx = \<lparr>tx_client = sample_client_notx\<rparr>\<rparr>
        [1, 2] [0, 0] sample_world
      = Inr (Some (ErrorsNew ''unexpected context''), [0, 0], \<lparr>ext = [3], drv_log = []\<rparr>)
   \<and> otb_DeleteMulti sample_translator sample_driver \<lparr>otb_tx = \<lparr>tx_client = sample_client_notx\<rparr>\<rparr>
        [1, 2] sample_world
      = (Some (ErrorsNew ''unexpected context''), \<lparr>ext = [3], drv_log = []\<rparr>)"
proof -
  have h: "getTx (ds_ctx (tx_client (otb_tx \<lparr>otb_tx = \<lparr>tx_client = sample_client_notx\<rparr>\<rparr>))) = None"
    by (simp add: getTx_def sample_client_notx_def)
  show ?thesis
    using h otb_no_transaction_unexpected_context [OF h, of sample_translator sample_driver "[1, 2]" "[0, 0]" sample_world]
    by (simp add: sample_world_def)
qed

section \<open>Transactional reads and the cache layers\<close>

lemma otb_GetMulti_ctx_only:
  "ds_ctx (tx_client (otb_tx otb)) = ds_ctx (tx_client (otb_tx otb')) \<Longrightarrow>
   otb_GetMulti tr drv otb = otb_GetMulti tr drv otb'"
  by (intro ext) (simp add: otb_GetMulti_def)

text \<open>
  C2. A batch read inside a transaction, \<open>transactionImpl.GetMulti\<close>, hands
  \<open>shared.GetMultiOps\<close> a callback that is the Transaction Bridge's \<open>GetMulti\<close> for this
  transaction: the property lists it delivers come from the driver transaction and from
  no cache layer. Replacing the configured cache strategies by any others changes
  nothing of the result.
\<close>

theorem transactional_read_bypasses_cache_layers:
  "transactionImpl_GetMulti GetMultiOps (GetMultiWithTx tr drv) tx keys dst w
     = GetMultiOps (ds_ctx (tx_client tx)) keys dst (otb_GetMulti tr drv \<lparr>otb_tx = tx\<rparr>) w
   \<and> transactionImpl_GetMulti GetMultiOps (GetMultiWithTx tr drv)
        (tx\<lparr>tx_client := (tx_client tx)\<lparr>ds_cacheStrategies := cs\<rparr>\<rparr>) keys dst w
     = transactionImpl_GetMulti GetMultiOps (GetMultiWithTx tr drv) tx keys dst w"
proof -
  have a: "\<And>t. (\<lambda>keys dst. GetMultiWithTx tr drv
             (NewCacheBridge \<lparr>info_Context = ds_ctx (tx_client t), info_Client = tx_client t\<rparr>
                \<lparr>ocb_d = tx_client t\<rparr> \<lparr>otb_tx = t\<rparr> None (ds_cacheStrategies (tx_client t)))
             \<lparr>info_Context = ds_ctx (tx_client t), info_Client = tx_client t\<rparr> keys dst)
           = otb_GetMulti tr drv \<lparr>otb_tx = t\<rparr>"
    by (intro ext) (simp add: GetMultiWithTx_def NewCacheBridge_def)
  have b: "\<And>t. transactionImpl_GetMulti GetMultiOps (GetMultiWithTx tr drv) t keys dst w
     = GetMultiOps (ds_ctx (tx_client t)) keys dst (otb_GetMulti tr drv \<lparr>otb_tx = t\<rparr>) w"
    unfolding transactionImpl_GetMulti_def Let_def a ..
  have c: "otb_GetMulti tr drv \<lparr>otb_tx = tx\<lparr>tx_client := (tx_client tx)\<lparr>ds_cacheStrategies := cs\<rparr>\<rparr>\<rparr>
         = otb_GetMulti tr drv \<lparr>otb_tx = tx\<rparr>"
    by (rule otb_GetMulti_ctx_only) simp
  show ?thesis
    by (simp add: b c)
qed

section \<open>Commit and Rollback without a driver transaction\<close>

text \<open>
  C3. When the ambient context of a transaction handle carries no driver transaction,
  \<open>Commit\<close> returns a nil commit and a nil error, and the world is unchanged: the driver
  is not called.
\<close>

theorem Commit_without_transaction_is_noop:
  assumes "getTx (ds_ctx (tx_client tx)) = None"
  shows "transactionImpl_Commit drv tx w = ((None, None), w)"
  using assms by (simp add: transactionImpl_Commit_def)

theorem Commit_without_transaction_is_noop_witness:
  "getTx (ds_ctx (tx_client \<lparr>tx_client = sample_client_notx\<rparr>)) = None
   \<and> transactionImpl_Commit sample_driver \<lparr>tx_client = sample_client_notx\<rparr> sample_world
     = ((None, None), \<lparr>ext = [3], drv_log = []\<rparr>)"
proof -
  have h: "getTx (ds_ctx (tx_client \<lparr>tx_client = sample_client_notx\<rparr>)) = None"
    by (simp add: getTx_def sample_client_notx_def)
  from h Commit_without_transaction_is_noop [OF h, of sample_driver sample_world]
  show ?thesis by (simp add: sample_world_def)
qed

text \<open>
  C4. \<open>Rollback\<close> guards on the receiver \<open>tx\<close> and not on the handle \<open>baseTx\<close> read
  from the context. On a non-nil transaction whose context carries no driver
  transaction the guard does not fire (the call is not the no-op that returns nil and
  leaves the world alone): \<open>Rollback\<close> is called through the nil handle and panics.
\<close>

theorem Rollback_without_transaction_dereferences_nil:
  assumes "getTx (ds_ctx (tx_client tx)) = None"
  shows "transactionImpl_Rollback drv (Some tx) w = Inl NilPointerDereference
       \<and> transactionImpl_Rollback drv (Some tx) w \<noteq> Inr (None, w)"
  using assms by (simp add: transactionImpl_Rollback_def)

theorem Rollback_without_transaction_dereferences_nil_witness:
  "getTx (ds_ctx (tx_client \<lparr>tx_client = sample_client_notx\<rparr>)) = None
   \<and> transactionImpl_Rollback sample_driver (Some \<lparr>tx_client = sample_client_notx\<rparr>) sample_world
     = Inl NilPointerDereference"
proof -
  have h: "getTx (ds_ctx (tx_client \<lparr>tx_client = sample_client_notx\<rparr>)) = None"
    by (simp add: getTx_def sample_client_notx_def)
  from h Rollback_without_transaction_dereferences_nil [OF h, of sample_driver sample_world]
  show ?thesis by simp
qed

section \<open>Single-item operations\<close>

lemma Get_slot_0:
  "transactionImpl_GetMulti G C tx [key] [dst] w = Inr (Some (MultiError (e # es)), w') \<Longrightarrow>
   transactionImpl_Get G C tx key dst w = Inr (e, w')"
  by (simp add: transactionImpl_Get_def)

lemma Get_other_error:
  "transactionImpl_GetMulti G C tx [key] [dst] w = Inr (Some err, w') \<Longrightarrow>
   \<forall>m. err \<noteq> MultiError m \<Longrightarrow>
   transactionImpl_Get G C tx key dst w = Inr (Some err, w')"
  by (cases err) (simp_all add: transactionImpl_Get_def)

lemma Get_success:
  "transactionImpl_GetMulti G C tx [key] [dst] w = Inr (None, w') \<Longrightarrow>
   transactionImpl_Get G C tx key dst w = Inr (None, w')"
  by (simp add: transactionImpl_Get_def)

lemma Put_slot_0:
  "transactionImpl_PutMulti P C tx [key] [src] w = Inr ((pKeys, Some (MultiError (e # es))), w') \<Longrightarrow>
   transactionImpl_Put P C tx key src w = Inr ((None, e), w')"
  by (simp add: transactionImpl_Put_def)

lemma Put_other_error:
  "transactionImpl_PutMulti P C tx [key] [src] w = Inr ((pKeys, Some err), w') \<Longrightarrow>
   \<forall>m. err \<noteq> MultiError m \<Longrightarrow>
   transactionImpl_Put P C tx key src w = Inr ((None, Some err), w')"
  by (cases err) (simp_all add: transactionImpl_Put_def)

lemma Put_success:
  "transactionImpl_PutMulti P C tx [key] [src] w = Inr ((Some (pKey # rest), None), w') \<Longrightarrow>
   transactionImpl_Put P C tx key src w = Inr ((Some pKey, None), w')"
  by (simp add: transactionImpl_Put_def)

lemma Delete_slot_0:
  "transactionImpl_DeleteMulti D C tx [key] w = Inr (Some (MultiError (e # es)), w') \<Longrightarrow>
   transactionImpl_Delete D C tx key w = Inr (e, w')"
  by (simp add: transactionImpl_Delete_def)

lemma Delete_other_error:
  "transactionImpl_DeleteMulti D C tx [key] w = Inr (Some err, w') \<Longrightarrow>
   \<forall>m. err \<noteq> MultiError m \<Longrightarrow>
   transactionImpl_Delete D C tx key w = Inr (Some err, w')"
  by (cases err) (simp_all add: transactionImpl_Delete_def)

lemma Delete_success:
  "transactionImpl_DeleteMulti D C tx [key] w = Inr (None, w') \<Longrightarrow>
   transactionImpl_Delete D C tx key w = Inr (None, w')"
  by (simp add: transactionImpl_Delete_def)

text \<open>
  C5. \<open>Get\<close>, \<open>Put\<close> and \<open>Delete\<close> call the multi operation on the one-element batch.
  When that fails with a \<open>MultiError\<close>, they return its slot 0; any other error is
  returned as it is; on success \<open>Get\<close> and \<open>Delete\<close> return nil and \<open>Put\<close> returns the
  first pending key. The world is the one the multi operation left.
\<close>

theorem single_item_operations_unwrap_slot_0:
  "(transactionImpl_GetMulti G CG tx [key] [dst] w = Inr (Some (MultiError (e # es)), w')
      \<longrightarrow> transactionImpl_Get G CG tx key dst w = Inr (e, w'))
   \<and> (transactionImpl_GetMulti G CG tx [key] [dst] w = Inr (Some err, w') \<and> (\<forall>m. err \<noteq> MultiError m)
      \<longrightarrow> transactionImpl_Get G CG tx key dst w = Inr (Some err, w'))
   \<and> (transactionImpl_GetMulti G CG tx [key] [dst] w = Inr (None, w')
      \<longrightarrow> transactionImpl_Get G CG tx key dst w = Inr (None, w'))
   \<and> (transactionImpl_PutMulti P CP tx [key] [src] w = Inr ((pKeys, Some (MultiError (e # es))), w')
      \<longrightarrow> transactionImpl_Put P CP tx key src w = Inr ((None, e), w'))
   \<and> (transactionImpl_PutMulti P CP tx [key] [src] w = Inr ((pKeys, Some err), w') \<and> (\<forall>m. err \<noteq> MultiError m)
      \<longrightarrow> transactionImpl_Put P CP tx key src w = Inr ((None, Some err), w'))
   \<and> (transactionImpl_PutMulti P CP tx [key] [src] w = Inr ((Some (pKey # rest), None), w')
      \<longrightarrow> transactionImpl_Put P CP tx key src w = Inr ((Some pKey, None), w'))
   \<and> (transactionImpl_DeleteMulti D CD tx [key] w = Inr (Some (MultiError (e # es)), w')
      \<longrightarrow> transactionImpl_Delete D CD tx key w = Inr (e, w'))
   \<and> (transactionImpl_DeleteMulti D CD tx [key] w = Inr (Some err, w') \<and> (\<forall>m. err \<noteq> MultiError m)
      \<longrightarrow> transactionImpl_Delete D CD tx key w = Inr (Some err, w'))
   \<and> (transactionImpl_DeleteMulti D CD tx [key] w = Inr (None, w')
      \<longrightarrow> transactionImpl_Delete D CD tx key w = Inr (None, w'))"
  by (intro conjI impI)
     (blast intro: Get_slot_0 Get_other_error Get_success Put_slot_0 Put_other_error Put_success
        Delete_slot_0 Delete_other_error Delete_success)+

theorem single_item_operations_unwrap_slot_0_witness:
  "transactionImpl_GetMulti sample_GetMultiOps sample_GetMultiWithTx
      \<lparr>tx_client = sample_client_tx\<rparr> [0] [0] sample_world
     = Inr (Some (MultiError [Some ErrNoSuchEntity]), \<lparr>ext = [3], drv_log = [TxGetMulti 5]\<rparr>)
   \<and> transactionImpl_Get sample_GetMultiOps sample_GetMultiWithTx
      \<lparr>tx_client = sample_client_tx\<rparr> 0 0 sample_world
     = Inr (Some ErrNoSuchEntity, \<lparr>ext = [3], drv_log = [TxGetMulti 5]\<rparr>)
   \<and> transactionImpl_PutMulti sample_PutMultiOps sample_PutMultiWithTx
      \<lparr>tx_client = sample_client_tx\<rparr> [1] [0] sample_world
     = Inr ((None, Some (Passthrough ''deadline exceeded'')), \<lparr>ext = [3], drv_log = [TxPutMulti 5]\<rparr>)
   \<and> (\<forall>m. Passthrough ''deadline exceeded'' \<noteq> MultiError m)
   \<and> transactionImpl_Put sample_PutMultiOps sample_PutMultiWithTx
      \<lparr>tx_client = sample_client_tx\<rparr> 1 0 sample_world
     = Inr ((None, Some (Passthrough ''deadline exceeded'')), \<lparr>ext = [3], drv_log = [TxPutMulti 5]\<rparr>)
   \<and> transactionImpl_DeleteMulti sample_DeleteMultiOps sample_DeleteMultiWithTx
      \<lparr>tx_client = sample_client_tx\<rparr> [2] sample_world
     = Inr (None, \<lparr>ext = [3], drv_log = [TxDeleteMulti 5]\<rparr>)
   \<and> transactionImpl_Delete sample_DeleteMultiOps sample_DeleteMultiWithTx
      \<lparr>tx_client = sample_client_tx\<rparr> 2 sample_world
     = Inr (None, \<lparr>ext = [3], drv_log = [TxDeleteMulti 5]\<rparr>)"
proof -
  have g: "transactionImpl_GetMulti sample_GetMultiOps sample_GetMultiWithTx
      \<lparr>tx_client = sample_client_tx\<rparr> [0] [0] sample_world
     = Inr (Some (MultiError [Some ErrNoSuchEntity]), \<lparr>ext = [3], drv_log = [TxGetMulti 5]\<rparr>)"
    by (simp add: transactionImpl_GetMulti_def sample_GetMultiOps_def sample_GetMultiWithTx_def
          otb_GetMulti_def sample_defs)
  have p: "transactionImpl_PutMulti sample_PutMultiOps sample_PutMultiWithTx
      \<lparr>tx_client = sample_client_tx\<rparr> [1] [0] sample_world
     = Inr ((None, Some (Passthrough ''deadline exceeded'')), \<lparr>ext = [3], drv_log = [TxPutMulti 5]\<rparr>)"
    by (simp add: transactionImpl_PutMulti_def transactionImpl_PutMulti_ops_def
          sample_PutMultiOps_def sample_PutMultiWithTx_def otb_PutMulti_def sample_defs)
  have n: "\<forall>m. Passthrough ''deadline exceeded'' \<noteq> MultiError m"
    by simp
  have d: "transactionImpl_DeleteMulti sample_DeleteMultiOps sample_DeleteMultiWithTx
      \<lparr>tx_client = sample_client_tx\<rparr> [2] sample_world
     = Inr (None, \<lparr>ext = [3], drv_log = [TxDeleteMulti 5]\<rparr>)"
    by (simp add: transactionImpl_DeleteMulti_def sample_DeleteMultiOps_def
          sample_DeleteMultiWithTx_def otb_DeleteMulti_def sample_defs)
  note u = single_item_operations_unwrap_slot_0
    [of sample_GetMultiOps sample_GetMultiWithTx
        "\<lparr>tx_client = sample_client_tx\<rparr>" 0 0 sample_world "Some ErrNoSuchEntity" "[]"
        "\<lparr>ext = [3], drv_log = [TxGetMulti 5]\<rparr>"]
  note v = single_item_operations_unwrap_slot_0
    [where P = sample_PutMultiOps and CP = sample_PutMultiWithTx
       and tx = "\<lparr>tx_client = sample_client_tx\<rparr>" and key = 1 and src = 0 and w = sample_world
       and pKeys = None and err = "Passthrough ''deadline exceeded''"
       and w' = "\<lparr>ext = [3], drv_log = [TxPutMulti 5]\<rparr>"]
  note x = single_item_operations_unwrap_slot_0
    [where D = sample_DeleteMultiOps and CD = sample_DeleteMultiWithTx
       and tx = "\<lparr>tx_client = sample_client_tx\<rparr>" and key = 2 and w = sample_world
       and w' = "\<lparr>ext = [3], drv_log = [TxDeleteMulti 5]\<rparr>"]
  have g': "transactionImpl_Get sample_GetMultiOps sample_GetMultiWithTx
      \<lparr>tx_client = sample_client_tx\<rparr> 0 0 sample_world
     = Inr (Some ErrNoSuchEntity, \<lparr>ext = [3], drv_log = [TxGetMulti 5]\<rparr>)"
    by (rule u [THEN conjunct1, THEN mp, OF g])
  have p': "transactionImpl_Put sample_PutMultiOps sample_PutMultiWithTx
      \<lparr>tx_client = sample_client_tx\<rparr> 1 0 sample_world
     = Inr ((None, Some (Passthrough ''deadline exceeded'')), \<lparr>ext = [3], drv_log = [TxPutMulti 5]\<rparr>)"
    by (rule v [THEN conjunct2, THEN conjunct2, THEN conjunct2, THEN conjunct2, THEN conjunct1,
          THEN mp, OF conjI [OF p n]])
  have d': "transactionImpl_Delete sample_DeleteMultiOps sample_DeleteMultiWithTx
      \<lparr>tx_client = sample_client_tx\<rparr> 2 sample_world
     = Inr (None, \<lparr>ext = [3], drv_log = [TxDeleteMulti 5]\<rparr>)"
    by (rule x [THEN conjunct2, THEN conjunct2, THEN conjunct2, THEN conjunct2, THEN conjunct2,
          THEN conjunct2, THEN conjunct2, THEN conjunct2, THEN mp, OF d])
  from g g' p n p' d d' show ?thesis by (intro conjI)
qed

section \<open>Transactional writes\<close>

text \<open>
  C6. A successful transactional \<open>PutMulti\<close> returns pending keys, not concrete keys.
  The Transaction Bridge returns the pending keys of the driver transaction, each
  translated to the wrapper's representation. The callback that
  \<open>transactionImpl.PutMulti\<close> hands to \<open>shared.PutMultiOps\<close> puts nil in the slot of
  concrete keys and passes the pending keys and the error on. On success
  \<open>transactionImpl.PutMulti\<close> returns the pending-key slot of what \<open>shared.PutMultiOps\<close>
  returned and drops the slot of concrete keys.
\<close>

theorem transactional_PutMulti_returns_pending_keys:
  "(getTx (ds_ctx (tx_client (otb_tx otb))) = Some baseTx
      \<and> dtx_PutMulti drv baseTx (toOriginalKeys tr keys) (toOriginalPropertyListList tr psList) (ext w)
          = ((origPKeys, None), s')
      \<longrightarrow> otb_PutMulti tr drv otb keys psList w
            = ((Some (map (toWrapperPendingKey tr) origPKeys), None), called (TxPutMulti baseTx) s' w))
   \<and> (cb_PutMultiWithTx cb info keys psList w = Inr ((pKeys, err), wa)
      \<longrightarrow> transactionImpl_PutMulti_ops cb_PutMultiWithTx cb info keys psList w
            = Inr ((None, pKeys, err), wa))
   \<and> (PutMultiOps (ds_ctx (tx_client tx)) keys src
         (transactionImpl_PutMulti_ops cb_PutMultiWithTx
            (NewCacheBridge \<lparr>info_Context = ds_ctx (tx_client tx), info_Client = tx_client tx\<rparr>
               \<lparr>ocb_d = tx_client tx\<rparr> \<lparr>otb_tx = tx\<rparr> None (ds_cacheStrategies (tx_client tx)))
            \<lparr>info_Context = ds_ctx (tx_client tx), info_Client = tx_client tx\<rparr>) w
          = Inr ((ks, pKeys, None), wb)
      \<longrightarrow> transactionImpl_PutMulti PutMultiOps cb_PutMultiWithTx tx keys src w
            = Inr ((pKeys, None), wb))"
  by (simp add: otb_PutMulti_def toWrapperPendingKeys_def transactionImpl_PutMulti_ops_def
        transactionImpl_PutMulti_def)

theorem transactional_PutMulti_returns_pending_keys_witness:
  "otb_PutMulti sample_translator sample_driver \<lparr>otb_tx = \<lparr>tx_client = sample_client_tx\<rparr>\<rparr>
       [2, 3] [0, 0] sample_world
     = ((Some [1003, 1004], None), \<lparr>ext = [3], drv_log = [TxPutMulti 5]\<rparr>)
   \<and> transactionImpl_PutMulti_ops sample_PutMultiWithTx
       (NewCacheBridge \<lparr>info_Context = ds_ctx sample_client_tx, info_Client = sample_client_tx\<rparr>
          \<lparr>ocb_d = sample_client_tx\<rparr> \<lparr>otb_tx = \<lparr>tx_client = sample_client_tx\<rparr>\<rparr> None
          (ds_cacheStrategies sample_client_tx))
       \<lparr>info_Context = ds_ctx sample_client_tx, info_Client = sample_client_tx\<rparr>
       [2, 3] [0, 0] sample_world
     = Inr ((None, Some [1003, 1004], None), \<lparr>ext = [3], drv_log = [TxPutMulti 5]\<rparr>)
   \<and> transactionImpl_PutMulti sample_PutMultiOps sample_PutMultiWithTx
       \<lparr>tx_client = sample_client_tx\<rparr> [2, 3] [0, 0] sample_world
     = Inr ((Some [1003, 1004], None), \<lparr>ext = [3], drv_log = [TxPutMulti 5]\<rparr>)"
proof -
  let ?tx = "\<lparr>tx_client = sample_client_tx\<rparr>"
  let ?info = "\<lparr>info_Context = ds_ctx sample_client_tx, info_Client = sample_client_tx\<rparr>"
  let ?cb = "NewCacheBridge ?info \<lparr>ocb_d = sample_client_tx\<rparr> \<lparr>otb_tx = ?tx\<rparr> None
               (ds_cacheStrategies sample_client_tx)"
  let ?w' = "\<lparr>ext = [3::nat], drv_log = [TxPutMulti 5]\<rparr>"
  note t = transactional_PutMulti_returns_pending_keys
    [where tr = sample_translator and drv = sample_driver and otb = "\<lparr>otb_tx = ?tx\<rparr>"
       and tx = ?tx and keys = "[2, 3]" and psList = "[0, 0]" and src = "[0, 0]"
       and w = sample_world and s' = "[3]" and baseTx = 5 and origPKeys = "[1002, 1003]"
       and cb_PutMultiWithTx = sample_PutMultiWithTx and cb = ?cb and info = ?info
       and pKeys = "Some [1003, 1004]" and err = None and wa = ?w' and wb = ?w'
       and PutMultiOps = sample_PutMultiOps and ks = None]
  have a: "getTx (ds_ctx (tx_client (otb_tx \<lparr>otb_tx = ?tx\<rparr>))) = Some 5
      \<and> dtx_PutMulti sample_driver 5 (toOriginalKeys sample_translator [2, 3])
           (toOriginalPropertyListList sample_translator [0, 0]) (ext sample_world)
          = (([1002, 1003], None), [3])"
    by (simp add: sample_defs)
  have a': "otb_PutMulti sample_translator sample_driver \<lparr>otb_tx = ?tx\<rparr> [2, 3] [0, 0] sample_world
     = ((Some [1003, 1004], None), ?w')"
    using t [THEN conjunct1, THEN mp, OF a]
    by (simp add: sample_translator_def called_def sample_world_def)
  have b: "sample_PutMultiWithTx ?cb ?info [2, 3] [0, 0] sample_world
            = Inr ((Some [1003, 1004], None), ?w')"
    by (simp add: sample_PutMultiWithTx_def NewCacheBridge_def a')
  have b': "transactionImpl_PutMulti_ops sample_PutMultiWithTx ?cb ?info [2, 3] [0, 0] sample_world
     = Inr ((None, Some [1003, 1004], None), ?w')"
    by (rule t [THEN conjunct2, THEN conjunct1, THEN mp, OF b])
  have c: "sample_PutMultiOps (ds_ctx (tx_client ?tx)) [2, 3] [0, 0]
             (transactionImpl_PutMulti_ops sample_PutMultiWithTx
               (NewCacheBridge \<lparr>info_Context = ds_ctx (tx_client ?tx), info_Client = tx_client ?tx\<rparr>
                  \<lparr>ocb_d = tx_client ?tx\<rparr> \<lparr>otb_tx = ?tx\<rparr> None (ds_cacheStrategies (tx_client ?tx)))
               \<lparr>info_Context = ds_ctx (tx_client ?tx), info_Client = tx_client ?tx\<rparr>) sample_world
            = Inr ((None, Some [1003, 1004], None), ?w')"
    using b' by (simp add: sample_PutMultiOps_def)
  have c': "transactionImpl_PutMulti sample_PutMultiOps sample_PutMultiWithTx ?tx [2, 3] [0, 0] sample_world
     = Inr ((Some [1003, 1004], None), ?w')"
    by (rule t [THEN conjunct2, THEN conjunct2, THEN mp, OF c])
  from a' b' c' show ?thesis by (intro conjI)
qed

section \<open>Batch reads through the bridges\<close>

lemma write_back_translated:
  "length origPss' = length psList \<Longrightarrow>
   write_back 0 (toWrapperPropertyListList tr origPss') psList
     = Inr (toWrapperPropertyListList tr origPss')"
  by (rule write_back_same_length) (simp add: toWrapperPropertyListList_def)

text \<open>
  C7. A successful \<open>GetMulti\<close> keeps positions, outside and inside a transaction.
  For parallel slices \<open>keys\<close> and \<open>psList\<close>, when the driver returns no error and has
  filled its slice \<open>origPss'\<close> in place (a callee cannot resize the slice it is given),
  the caller's slice after the call has the length of \<open>keys\<close>, the driver was asked for
  the translation of key \<open>i\<close> at position \<open>i\<close>, and slot \<open>i\<close> of the caller's slice holds
  the translation of slot \<open>i\<close> of the driver's result.
\<close>

theorem GetMulti_positionally_aligned:
  assumes "length psList = length keys"
      and "length origPss' = length psList"
  shows "(client_GetMulti drv ctx (toOriginalKeys tr keys) (toOriginalPropertyListList tr psList) (ext w)
            = ((None, origPss'), s')
          \<longrightarrow> (\<exists>psList'. ocb_GetMulti tr drv ocb ctx keys psList w
                     = Inr (None, psList', called ClientGetMulti s' w)
                \<and> length psList' = length keys
                \<and> (\<forall>i<length keys. toOriginalKeys tr keys ! i = toOriginalKey tr (keys ! i)
                       \<and> psList' ! i = toWrapperPropertyList tr (origPss' ! i))))
       \<and> (getTx (ds_ctx (tx_client (otb_tx otb))) = Some baseTx
          \<and> dtx_GetMulti drv baseTx (toOriginalKeys tr keys) (toOriginalPropertyListList tr psList) (ext w)
            = ((None, origPss'), s')
          \<longrightarrow> (\<exists>psList'. otb_GetMulti tr drv otb keys psList w
                     = Inr (None, psList', called (TxGetMulti baseTx) s' w)
                \<and> length psList' = length keys
                \<and> (\<forall>i<length keys. toOriginalKeys tr keys ! i = toOriginalKey tr (keys ! i)
                       \<and> psList' ! i = toWrapperPropertyList tr (origPss' ! i))))"
proof -
  have wb: "write_back 0 (toWrapperPropertyListList tr origPss') psList
              = Inr (toWrapperPropertyListList tr origPss')"
    using assms(2) by (rule write_back_translated)
  have len: "length (toWrapperPropertyListList tr origPss') = length keys"
    using assms by (simp add: toWrapperPropertyListList_def)
  have slots: "\<forall>i<length keys. toOriginalKeys tr keys ! i = toOriginalKey tr (keys ! i)
                 \<and> toWrapperPropertyListList tr origPss' ! i = toWrapperPropertyList tr (origPss' ! i)"
    using assms by (simp add: toWrapperPropertyListList_def toOriginalKeys_def)
  show ?thesis
  proof (intro conjI impI)
    assume "client_GetMulti drv ctx (toOriginalKeys tr keys) (toOriginalPropertyListList tr psList) (ext w)
            = ((None, origPss'), s')"
    then have "ocb_GetMulti tr drv ocb ctx keys psList w
                 = Inr (None, toWrapperPropertyListList tr origPss', called ClientGetMulti s' w)"
      by (simp add: ocb_GetMulti_def wb)
    with len slots show "\<exists>psList'. ocb_GetMulti tr drv ocb ctx keys psList w
                     = Inr (None, psList', called ClientGetMulti s' w)
                \<and> length psList' = length keys
                \<and> (\<forall>i<length keys. toOriginalKeys tr keys ! i = toOriginalKey tr (keys ! i)
                       \<and> psList' ! i = toWrapperPropertyList tr (origPss' ! i))"
      by blast
  next
    assume "getTx (ds_ctx (tx_client (otb_tx otb))) = Some baseTx
          \<and> dtx_GetMulti drv baseTx (toOriginalKeys tr keys) (toOriginalPropertyListList tr psList) (ext w)
            = ((None, origPss'), s')"
    then have "otb_GetMulti tr drv otb keys psList w
                 = Inr (None, toWrapperPropertyListList tr origPss', called (TxGetMulti baseTx) s' w)"
      by (simp add: otb_GetMulti_def wb)
    with len slots show "\<exists>psList'. otb_GetMulti tr drv otb keys psList w
                     = Inr (None, psList', called (TxGetMulti baseTx) s' w)
                \<and> length psList' = length keys
                \<and> (\<forall>i<length keys. toOriginalKeys tr keys ! i = toOriginalKey tr (keys ! i)
                       \<and> psList' ! i = toWrapperPropertyList tr (origPss' ! i))"
      by blast
  qed
qed

theorem GetMulti_positionally_aligned_witness:
  "ocb_GetMulti sample_translator sample_driver \<lparr>ocb_d = sample_client_notx\<rparr>
       (ds_ctx sample_client_notx) [2, 3] [0, 0] sample_world
     = Inr (None, [103, 104], \<lparr>ext = [3], drv_log = [ClientGetMulti]\<rparr>)
   \<and> otb_GetMulti sample_translator sample_driver \<lparr>otb_tx = \<lparr>tx_client = sample_client_tx\<rparr>\<rparr>
       [2, 3] [0, 0] sample_world
     = Inr (None, [103, 104], \<lparr>ext = [3], drv_log = [TxGetMulti 5]\<rparr>)"
proof -
  have l1: "length [0::nat, 0] = length [2::nat, 3]" by simp
  have l2: "length [102::nat, 103] = length [0::nat, 0]" by simp
  have a: "client_GetMulti sample_driver (ds_ctx sample_client_notx)
             (toOriginalKeys sample_translator [2, 3])
             (toOriginalPropertyListList sample_translator [0, 0]) (ext sample_world)
           = ((None, [102, 103]), [3])"
    by (simp add: sample_defs)
  have b: "getTx (ds_ctx (tx_client (otb_tx \<lparr>otb_tx = \<lparr>tx_client = sample_client_tx\<rparr>\<rparr>))) = Some 5
         \<and> dtx_GetMulti sample_driver 5 (toOriginalKeys sample_translator [2, 3])
             (toOriginalPropertyListList sample_translator [0, 0]) (ext sample_world)
           = ((None, [102, 103]), [3])"
    by (simp add: sample_defs)
  note t = GetMulti_positionally_aligned [OF l1 l2,
    where drv = sample_driver and tr = sample_translator and w = sample_world and s' = "[3]"]
  obtain ps1 where a': "ocb_GetMulti sample_translator sample_driver \<lparr>ocb_d = sample_client_notx\<rparr>
       (ds_ctx sample_client_notx) [2, 3] [0, 0] sample_world
     = Inr (None, ps1, called ClientGetMulti [3] sample_world)"
     and a1: "length ps1 = length [2::nat, 3]"
     and a2: "\<forall>i<length [2::nat, 3]. toOriginalKeys sample_translator [2, 3] ! i = toOriginalKey sample_translator ([2, 3] ! i)
                \<and> ps1 ! i = toWrapperPropertyList sample_translator ([102, 103] ! i)"
    using t [THEN conjunct1, THEN mp, OF a] by blast
  obtain ps2 where b': "otb_GetMulti sample_translator sample_driver \<lparr>otb_tx = \<lparr>tx_client = sample_client_tx\<rparr>\<rparr>
       [2, 3] [0, 0] sample_world
     = Inr (None, ps2, called (TxGetMulti 5) [3] sample_world)"
     and b1: "length ps2 = length [2::nat, 3]"
     and b2: "\<forall>i<length [2::nat, 3]. toOriginalKeys sample_translator [2, 3] ! i = toOriginalKey sample_translator ([2, 3] ! i)
                \<and> ps2 ! i = toWrapperPropertyList sample_translator ([102, 103] ! i)"
    using t [THEN conjunct2, THEN mp, OF b] by blast
  from a2 have "ps1 ! 0 = 103" "ps1 ! 1 = 104"
    by (simp_all add: sample_translator_def)
  with a1 have p1: "ps1 = [103, 104]"
    by (simp add: list_eq_iff_nth_eq less_Suc_eq)
  from b2 have "ps2 ! 0 = 103" "ps2 ! 1 = 104"
    by (simp_all add: sample_translator_def)
  with b1 have p2: "ps2 = [103, 104]"
    by (simp add: list_eq_iff_nth_eq less_Suc_eq)
  from a' b' p1 p2 show ?thesis
    by (simp add: called_def sample_world_def)
qed

section \<open>The Iterator Bridge\<close>

lemma oib_Next_does_not_read_firstError:
  "oib_Next tr drv (iterImpl\<lparr>it_firstError := fe\<rparr>) ps w = oib_Next tr drv iterImpl ps w"
  by (simp add: oib_Next_def)

text \<open>
  C8. The iterator that \<open>Run\<close> makes of a query that failed to build carries the
  failure of the query, and \<open>Next\<close> on that iterator returns a nil key and that failure
  at once: the caller's buffer and the world are as they were, so the driver cursor is
  not called. The first half is \<open>originalClientBridgeImpl.Run\<close>; the second is the
  iterator's own \<open>Next\<close>, since the Iterator Bridge does not read the failure
  (\<open>oib_Next_does_not_read_firstError\<close>).
\<close>

theorem failed_query_iterator_returns_firstError:
  assumes "q_firstError qImpl = Some e"
  shows "it_firstError (fst (ocb_Run drv ocb ctx qImpl w)) = Some e
       \<and> iteratorImpl_Next tr drv (fst (ocb_Run drv ocb ctx qImpl w)) ps w'
           = ((None, Some e), ps, w')"
proof -
  have carried: "it_firstError (fst (ocb_Run drv ocb ctx qImpl w)) = Some e"
    using assms by (simp add: ocb_Run_def split: prod.splits)
  then show ?thesis
    by (simp add: iteratorImpl_Next_def)
qed

theorem failed_query_iterator_returns_firstError_witness:
  "q_firstError sample_failed_query = Some (ErrorsNew ''bad filter'')
   \<and> it_firstError sample_failed_iterator = Some (ErrorsNew ''bad filter'')
   \<and> sample_world_after_Run = \<lparr>ext = [3], drv_log = [ClientRun]\<rparr>
   \<and> iteratorImpl_Next sample_translator sample_driver sample_failed_iterator 0
         sample_world_after_Run
       = ((None, Some (ErrorsNew ''bad filter'')), 0, \<lparr>ext = [3], drv_log = [ClientRun]\<rparr>)"
proof -
  have h: "q_firstError sample_failed_query = Some (ErrorsNew ''bad filter'')"
    by (simp add: sample_failed_query_def)
  have a: "sample_world_after_Run = \<lparr>ext = [3], drv_log = [ClientRun]\<rparr>"
    by (simp add: sample_world_after_Run_def ocb_Run_def sample_defs)
  from h a failed_query_iterator_returns_firstError
    [OF h, of sample_driver "\<lparr>ocb_d = sample_client_notx\<rparr>" "ds_ctx sample_client_notx"
       sample_world sample_translator 0 sample_world_after_Run]
  show ?thesis
    by (simp add: sample_failed_iterator_def)
qed

lemma Next_each_exhausted:
  assumes "\<forall>ps. snd (fst (dit_Next drv (it_t iterImpl) ps s)) = Some DDone
               \<and> snd (dit_Next drv (it_t iterImpl) ps s) = s"
  shows "ext w = s \<Longrightarrow>
         Next_each tr drv iterImpl pss w
           = (map (\<lambda>ps. ((None, Some ErrDone), ps)) pss,
              w\<lparr>drv_log := drv_log w @ replicate (length pss) (IteratorNext (it_t iterImpl))\<rparr>)"
proof (induction pss arbitrary: w)
  case Nil
  then show ?case by simp
next
  case (Cons ps pss)
  obtain k e s' where d: "dit_Next drv (it_t iterImpl) (toOriginalPropertyList tr ps) s = ((k, e), s')"
    by (metis prod.exhaust)
  with assms have e: "e = Some DDone" and s': "s' = s"
    by (metis fst_conv snd_conv)+
  from d e s' Cons.prems have step: "oib_Next tr drv iterImpl ps w
     = ((None, Some ErrDone), ps, w\<lparr>drv_log := drv_log w @ [IteratorNext (it_t iterImpl)]\<rparr>)"
    by (simp add: oib_Next_def called_def)
  have "ext (w\<lparr>drv_log := drv_log w @ [IteratorNext (it_t iterImpl)]\<rparr>) = s"
    using Cons.prems by simp
  from Cons.IH [OF this] step show ?case
    by (simp add: replicate_app_Cons_same)
qed

lemma oib_Next_ErrDone:
  assumes "oib_Next tr drv iterImpl ps w = ((k, Some ErrDone), ps', w')"
  shows "snd (fst (dit_Next drv (it_t iterImpl) (toOriginalPropertyList tr ps) (ext w))) = Some DDone
       \<and> ext w' = snd (dit_Next drv (it_t iterImpl) (toOriginalPropertyList tr ps) (ext w))
       \<and> k = None \<and> ps' = ps"
proof -
  obtain ok e s' where d: "dit_Next drv (it_t iterImpl) (toOriginalPropertyList tr ps) (ext w) = ((ok, e), s')"
    by (metis prod.exhaust)
  with assms show ?thesis
    by (cases e) (auto simp: oib_Next_def called_def toWrapperError_ErrDone)
qed

text \<open>
  C9. Let the driver keep its contract that \<open>iterator.Done\<close> is terminal for the cursor
  of an iterator. Once a call of \<open>Next\<close> has returned \<open>ErrDone\<close>, every later call, however
  many and with whatever buffers, returns a nil key and \<open>ErrDone\<close>, leaves its buffer as
  it was, and leaves the driver state where the first \<open>ErrDone\<close> left it. \<open>Next\<close> has no
  panic of its own.
\<close>

theorem Next_after_ErrDone_stays_ErrDone:
  assumes "done_is_terminal drv (it_t iterImpl)"
      and "oib_Next tr drv iterImpl ps w = ((k, Some ErrDone), ps', w')"
  shows "map fst (fst (Next_each tr drv iterImpl pss w')) = replicate (length pss) (None, Some ErrDone)
       \<and> map snd (fst (Next_each tr drv iterImpl pss w')) = pss
       \<and> ext (snd (Next_each tr drv iterImpl pss w')) = ext w'"
proof -
  from oib_Next_ErrDone [OF assms(2)]
  have d: "snd (fst (dit_Next drv (it_t iterImpl) (toOriginalPropertyList tr ps) (ext w))) = Some DDone"
    and s: "ext w' = snd (dit_Next drv (it_t iterImpl) (toOriginalPropertyList tr ps) (ext w))"
    by simp_all
  from assms(1) d s
  have "\<forall>ps2. snd (fst (dit_Next drv (it_t iterImpl) ps2 (ext w'))) = Some DDone
               \<and> snd (dit_Next drv (it_t iterImpl) ps2 (ext w')) = ext w'"
    unfolding done_is_terminal_def by metis
  from Next_each_exhausted [OF this refl, of tr pss]
  show ?thesis
    by (simp add: comp_def map_replicate_const)
qed

lemma sample_done_is_terminal: "done_is_terminal sample_driver h"
  by (auto simp: done_is_terminal_def sample_driver_def split: list.splits)

theorem Next_after_ErrDone_stays_ErrDone_witness:
  "done_is_terminal sample_driver 7
   \<and> oib_Next sample_translator sample_driver sample_failed_iterator 0 \<lparr>ext = [], drv_log = []\<rparr>
       = ((None, Some ErrDone), 0, \<lparr>ext = [], drv_log = [IteratorNext 7]\<rparr>)
   \<and> map fst (fst (Next_each sample_translator sample_driver sample_failed_iterator [4, 5]
        \<lparr>ext = [], drv_log = [IteratorNext 7]\<rparr>)) = [(None, Some ErrDone), (None, Some ErrDone)]
   \<and> map snd (fst (Next_each sample_translator sample_driver sample_failed_iterator [4, 5]
        \<lparr>ext = [], drv_log = [IteratorNext 7]\<rparr>)) = [4, 5]
   \<and> ext (snd (Next_each sample_translator sample_driver sample_failed_iterator [4, 5]
        \<lparr>ext = [], drv_log = [IteratorNext 7]\<rparr>)) = []"
proof -
  have i: "it_t sample_failed_iterator = 7"
    by (simp add: sample_failed_iterator_def ocb_Run_def sample_driver_def)
  have h1: "done_is_terminal sample_driver (it_t sample_failed_iterator)"
    by (rule sample_done_is_terminal)
  have h2: "oib_Next sample_translator sample_driver sample_failed_iterator 0 \<lparr>ext = [], drv_log = []\<rparr>
       = ((None, Some ErrDone), 0, \<lparr>ext = [], drv_log = [IteratorNext 7]\<rparr>)"
    by (simp add: oib_Next_def i sample_defs)
  from h1 h2 i Next_after_ErrDone_stays_ErrDone [OF h1 h2, of "[4, 5]"]
  show ?thesis
    by (simp add: numeral_2_eq_2)
qed

section \<open>Failed batch reads\<close>

text \<open>
  C10. When the driver call of a \<open>GetMulti\<close> fails, in the Original-Store Bridge or in
  the Transaction Bridge, the caller's slice \<open>psList\<close> is returned as it was given, and the
  error returned is the driver's error, normalized.
\<close>

theorem GetMulti_failure_leaves_psList:
  "(client_GetMulti drv ctx (toOriginalKeys tr keys) (toOriginalPropertyListList tr psList) (ext w)
        = ((Some e, origPss'), s')
      \<longrightarrow> ocb_GetMulti tr drv ocb ctx keys psList w
            = Inr (Some (toWrapperError e), psList, called ClientGetMulti s' w))
   \<and> (getTx (ds_ctx (tx_client (otb_tx otb))) = Some baseTx
      \<and> dtx_GetMulti drv baseTx (toOriginalKeys tr keys) (toOriginalPropertyListList tr psList) (ext w)
        = ((Some e, origPss'), s')
      \<longrightarrow> otb_GetMulti tr drv otb keys psList w
            = Inr (Some (toWrapperError e), psList, called (TxGetMulti baseTx) s' w))"
  by (simp add: ocb_GetMulti_def otb_GetMulti_def)

theorem GetMulti_failure_leaves_psList_witness:
  "ocb_GetMulti sample_translator sample_driver \<lparr>ocb_d = sample_client_notx\<rparr>
       (ds_ctx sample_client_notx) [2, 0] [8, 9] sample_world
     = Inr (Some (MultiError [None, Some ErrNoSuchEntity]), [8, 9],
            \<lparr>ext = [3], drv_log = [ClientGetMulti]\<rparr>)
   \<and> otb_GetMulti sample_translator sample_driver \<lparr>otb_tx = \<lparr>tx_client = sample_client_tx\<rparr>\<rparr>
       [2, 1] [8, 9] sample_world
     = Inr (Some (Passthrough ''deadline exceeded''), [8, 9],
            \<lparr>ext = [3], drv_log = [TxGetMulti 5]\<rparr>)"
proof -
  have a: "client_GetMulti sample_driver (ds_ctx sample_client_notx)
             (toOriginalKeys sample_translator [2, 0])
             (toOriginalPropertyListList sample_translator [8, 9]) (ext sample_world)
           = ((Some (DMultiError [None, Some DNoSuchEntity]), [8, 9]), [3])"
    by (simp add: sample_defs)
  have b: "getTx (ds_ctx (tx_client (otb_tx \<lparr>otb_tx = \<lparr>tx_client = sample_client_tx\<rparr>\<rparr>))) = Some 5
         \<and> dtx_GetMulti sample_driver 5 (toOriginalKeys sample_translator [2, 1])
             (toOriginalPropertyListList sample_translator [8, 9]) (ext sample_world)
           = ((Some (DOther ''deadline exceeded''), [8, 9]), [3])"
    by (simp add: sample_defs)
  note t = GetMulti_failure_leaves_psList
    [where drv = sample_driver and tr = sample_translator and w = sample_world and s' = "[3]"
       and psList = "[8, 9]" and origPss' = "[8, 9]"]
  have a': "ocb_GetMulti sample_translator sample_driver \<lparr>ocb_d = sample_client_notx\<rparr>
       (ds_ctx sample_client_notx) [2, 0] [8, 9] sample_world
     = Inr (Some (toWrapperError (DMultiError [None, Some DNoSuchEntity])), [8, 9],
            called ClientGetMulti [3] sample_world)"
    by (rule t [THEN conjunct1, THEN mp, OF a])
  have b': "otb_GetMulti sample_translator sample_driver \<lparr>otb_tx = \<lparr>tx_client = sample_client_tx\<rparr>\<rparr>
       [2, 1] [8, 9] sample_world
     = Inr (Some (toWrapperError (DOther ''deadline exceeded'')), [8, 9],
            called (TxGetMulti 5) [3] sample_world)"
    by (rule t [THEN conjunct2, THEN mp, OF b])
  from a' b' show ?thesis
    by (simp add: called_def sample_world_def)
qed

end
